theory Spec2Isabelle
  imports Complex_Main
begin

section \<open>The tax engine of the Nigerian tax calculator\<close>

text \<open>
  The development embeds the computation of the calculator page in its version with the
  2026 reform: the function \<^verbatim>\<open>calculateTax\<close> and the block of the results step
  of \<^verbatim>\<open>CalculatorPage\<close> that calls it. The earlier version of the page,
  \<^verbatim>\<open>app/calculator/page.tsx\<close>, has a \<^verbatim>\<open>calculateTax\<close> of one parameter whose
  body is the 2025 branch word for word, so \<open>calculateTax x Y2025\<close> is its model as well.

  Amounts are JavaScript numbers in the source. They are modelled as exact rationals, so
  every theorem below is about the arithmetic the code writes down, without the rounding
  of IEEE doubles. The only non-finite number of the source, the limit \<^verbatim>\<open>Infinity\<close>
  of the last band, is a constructor of its own.

  The breakdown is a list of strings built from templates. A line is modelled by its
  template and by the numbers interpolated into it; the rendering of a number
  (\<^verbatim>\<open>toLocaleString\<close>, \<^verbatim>\<open>toFixed(0)\<close>) is left out.
\<close>

subsection \<open>Types\<close>

datatype UserType = Salary | Freelancer | Both | Crypto

datatype CryptoTaxMethod = Cgt | Pit

datatype TaxYear = Y2025 | Y2026

datatype IncomeType = Monthly | Yearly

text \<open>The field \<^verbatim>\<open>limit\<close> of a band is a number or \<^verbatim>\<open>Infinity\<close>.\<close>

datatype Limit = Amount rat | Infinity

record Band =
  limit :: Limit
  rate :: rat

text \<open>
  The three templates of a breakdown line:
  \<^item> \<open>TaxFreeLine x\<close>: \<^verbatim>\<open>Income N{x} is tax-free (below N800,000 threshold)\<close>;
  \<^item> \<open>ThresholdLine x\<close>: \<^verbatim>\<open>Tax-free threshold: N{x} @ 0% = N0\<close>;
  \<^item> \<open>AmountLine a p v\<close>: \<^verbatim>\<open>N{a} @ {p}% = N{v}\<close>.
\<close>

datatype BreakdownLine =
  TaxFreeLine rat
| ThresholdLine rat
| AmountLine rat rat rat

record TaxResult =
  tax :: rat
  relief :: rat
  taxableIncome :: rat
  breakdown :: "BreakdownLine list"

subsection \<open>Numeric helpers of the source language\<close>

text \<open>\<^verbatim>\<open>Math.min(x, l)\<close> where \<open>l\<close> may be \<^verbatim>\<open>Infinity\<close>.\<close>

fun minLimit :: "rat \<Rightarrow> Limit \<Rightarrow> rat" where
  "minLimit x (Amount l) = min x l"
| "minLimit x Infinity = x"

text \<open>\<^verbatim>\<open>Math.round\<close>: the nearest integer, a half rounded up.\<close>

definition Math_round :: "rat \<Rightarrow> rat" where
  "Math_round x = of_int \<lfloor>x + 1 / 2\<rfloor>"

subsection \<open>The band tables\<close>

definition bands2026 :: "Band list" where
  "bands2026 =
     [\<lparr>limit = Amount 2200000, rate = 0.15\<rparr>,
      \<lparr>limit = Amount 9000000, rate = 0.18\<rparr>,
      \<lparr>limit = Amount 13000000, rate = 0.21\<rparr>,
      \<lparr>limit = Amount 25000000, rate = 0.23\<rparr>,
      \<lparr>limit = Infinity, rate = 0.25\<rparr>]"

definition bands2025 :: "Band list" where
  "bands2025 =
     [\<lparr>limit = Amount 300000, rate = 0.07\<rparr>,
      \<lparr>limit = Amount 300000, rate = 0.11\<rparr>,
      \<lparr>limit = Amount 500000, rate = 0.15\<rparr>,
      \<lparr>limit = Amount 500000, rate = 0.19\<rparr>,
      \<lparr>limit = Amount 1600000, rate = 0.21\<rparr>,
      \<lparr>limit = Infinity, rate = 0.24\<rparr>]"

subsection \<open>The loop over the bands\<close>

text \<open>
  Both branches of \<^verbatim>\<open>calculateTax\<close> run the same loop
  \<^verbatim>\<open>for (const band of bands) { if (remaining <= 0) break; ... }\<close> over the
  variables \<^verbatim>\<open>remaining\<close>, \<^verbatim>\<open>tax\<close> and \<^verbatim>\<open>breakdown\<close>. The two copies
  differ in one place: the 2026 copy prints \<^verbatim>\<open>Math.round(bandTax)\<close> in the line,
  the 2025 copy prints \<^verbatim>\<open>bandTax\<close>. The function \<open>shown\<close> is that difference.
\<close>

fun bandLoop ::
  "(rat \<Rightarrow> rat) \<Rightarrow> Band list \<Rightarrow> rat \<times> rat \<times> BreakdownLine list
     \<Rightarrow> rat \<times> rat \<times> BreakdownLine list" where
  "bandLoop shown [] (remaining, tx, lines) = (remaining, tx, lines)"
| "bandLoop shown (band # bands) (remaining, tx, lines) =
     (if remaining \<le> 0 then (remaining, tx, lines)
      else
        let amount = minLimit remaining (limit band);
            bandTax = amount * rate band
        in bandLoop shown bands
             (remaining - amount, tx + bandTax,
              lines @ [AmountLine amount (rate band * 100) (shown bandTax)]))"

subsection \<open>calculateTax\<close>

text \<open>
  The parameter \<^verbatim>\<open>year\<close> is \<^verbatim>\<open>"2025"\<close> or \<^verbatim>\<open>"2026"\<close> and defaults to
  \<^verbatim>\<open>"2025"\<close>; the model takes it explicitly. The 2026 branch declares the loop
  variables, returns early for an income of at most the threshold and otherwise pushes the
  threshold line before the loop runs. The function has no \<^verbatim>\<open>throw\<close> and checks no
  input, so the model has no error value.
\<close>

definition calculateTax :: "rat \<Rightarrow> TaxYear \<Rightarrow> TaxResult" where
  "calculateTax annualIncome year =
     (if year = Y2026 then
        let taxFreeThreshold = 800000;
            relief0 = 0;
            taxable = max (annualIncome - taxFreeThreshold) 0
        in
          if annualIncome \<le> taxFreeThreshold then
            \<lparr>tax = 0, relief = 0, taxableIncome = 0,
             breakdown = [TaxFreeLine annualIncome]\<rparr>
          else
            (case bandLoop Math_round bands2026
                    (taxable, 0, [ThresholdLine taxFreeThreshold]) of
               (remaining, tx, lines) \<Rightarrow>
                 \<lparr>tax = tx, relief = relief0, taxableIncome = taxable,
                  breakdown = lines\<rparr>)
      else
        let relief0 = max 200000 (annualIncome * 0.01) + annualIncome * 0.2;
            taxable = max (annualIncome - relief0) 0
        in
          (case bandLoop (\<lambda>bandTax. bandTax) bands2025 (taxable, 0, []) of
             (remaining, tx, lines) \<Rightarrow>
               \<lparr>tax = tx, relief = relief0, taxableIncome = taxable,
                breakdown = lines\<rparr>))"

subsection \<open>The results step of CalculatorPage\<close>

text \<open>
  The block rendered at \<^verbatim>\<open>step === 5\<close> computes the figures shown to the user from
  the page state: the parsed income and its period, the user type (\<^verbatim>\<open>null\<close> until
  chosen), the crypto tax method, the tax year and the parsed annual rent.
\<close>

definition yearlyIncomeOf :: "IncomeType \<Rightarrow> rat \<Rightarrow> rat" where
  "yearlyIncomeOf incomeType incomeValue =
     (if incomeType = Monthly then incomeValue * 12 else incomeValue)"

definition isCryptoCGT :: "UserType option \<Rightarrow> CryptoTaxMethod \<Rightarrow> bool" where
  "isCryptoCGT userType cryptoTaxMethod \<longleftrightarrow>
     userType = Some Crypto \<and> cryptoTaxMethod = Cgt"

definition rentRelief :: "TaxYear \<Rightarrow> rat \<Rightarrow> rat" where
  "rentRelief taxYear rentAmount =
     (if taxYear = Y2026 then min (rentAmount * 0.2) 500000 else 0)"

definition incomeAfterRentRelief :: "TaxYear \<Rightarrow> rat \<Rightarrow> rat \<Rightarrow> rat" where
  "incomeAfterRentRelief taxYear yearlyIncome rentAmount =
     max (yearlyIncome - rentRelief taxYear rentAmount) 0"

definition resultsStep ::
  "UserType option \<Rightarrow> CryptoTaxMethod \<Rightarrow> TaxYear \<Rightarrow> rat \<Rightarrow> rat \<Rightarrow> TaxResult" where
  "resultsStep userType cryptoTaxMethod taxYear yearlyIncome rentAmount =
     (if isCryptoCGT userType cryptoTaxMethod \<and> taxYear = Y2025 then
        \<lparr>tax = yearlyIncome * 0.1, relief = 0, taxableIncome = yearlyIncome,
         breakdown = [AmountLine yearlyIncome 10 (yearlyIncome * 0.1)]\<rparr>
      else if isCryptoCGT userType cryptoTaxMethod \<and> taxYear = Y2026 then
        calculateTax (incomeAfterRentRelief taxYear yearlyIncome rentAmount) Y2026
      else
        calculateTax (incomeAfterRentRelief taxYear yearlyIncome rentAmount) taxYear)"

subsection \<open>Reading a result\<close>

text \<open>The components of the loop state after the loop.\<close>

definition loopTax :: "rat \<times> rat \<times> BreakdownLine list \<Rightarrow> rat" where
  "loopTax s = fst (snd s)"

definition loopLines :: "rat \<times> rat \<times> BreakdownLine list \<Rightarrow> BreakdownLine list" where
  "loopLines s = snd (snd s)"

text \<open>The amount and the tax printed in a line; a line that is no band line prints neither.\<close>

fun lineAmount :: "BreakdownLine \<Rightarrow> rat" where
  "lineAmount (AmountLine a p v) = a"
| "lineAmount (TaxFreeLine x) = 0"
| "lineAmount (ThresholdLine x) = 0"

fun lineValue :: "BreakdownLine \<Rightarrow> rat" where
  "lineValue (AmountLine a p v) = v"
| "lineValue (TaxFreeLine x) = 0"
| "lineValue (ThresholdLine x) = 0"

fun isAmountLine :: "BreakdownLine \<Rightarrow> bool" where
  "isAmountLine (AmountLine a p v) = True"
| "isAmountLine (TaxFreeLine x) = False"
| "isAmountLine (ThresholdLine x) = False"

text \<open>
  The result of the early return of the 2026 branch: no tax, no taxable income and the
  single line of the tax-free template.
\<close>

definition isBelowThreshold :: "TaxResult \<Rightarrow> bool" where
  "isBelowThreshold r \<longleftrightarrow>
     tax r = 0 \<and> taxableIncome r = 0 \<and>
     (case breakdown r of [TaxFreeLine x] \<Rightarrow> True | _ \<Rightarrow> False)"

text \<open>A band with a rate and a limit that are not negative, as all bands of both tables are.\<close>

definition bandOk :: "Band \<Rightarrow> bool" where
  "bandOk b \<longleftrightarrow>
     0 \<le> rate b \<and> (case limit b of Amount w \<Rightarrow> 0 \<le> w | Infinity \<Rightarrow> True)"

section \<open>Properties of the helpers and of the loop\<close>

lemma minLimit_le: "minLimit x l \<le> x"
  by (cases l) simp_all

lemma minLimit_mono: "x \<le> y \<Longrightarrow> minLimit x l \<le> minLimit y l"
  by (cases l) (simp_all add: min.coboundedI1 min.coboundedI2 min_le_iff_disj)

lemma minLimit_rest_mono: "x \<le> y \<Longrightarrow> x - minLimit x l \<le> y - minLimit y l"
  by (cases l) (simp_all add: min_def)

lemma minLimit_nonneg: "0 \<le> x \<Longrightarrow> bandOk b \<Longrightarrow> 0 \<le> minLimit x (limit b)"
  by (cases "limit b") (simp_all add: bandOk_def)

lemma Math_round_of_int: "Math_round (of_int n) = of_int n"
proof -
  have "\<lfloor>(of_int n :: rat) + 1 / 2\<rfloor> = n" by linarith
  then show ?thesis by (simp add: Math_round_def)
qed

lemma Math_round_numeral: "Math_round (numeral k) = numeral k"
  using Math_round_of_int [of "numeral k"] by simp

lemma Math_round_small: "0 \<le> x \<Longrightarrow> x < 1 / 2 \<Longrightarrow> Math_round x = 0"
  by (simp add: Math_round_def floor_eq_iff)

lemma bands2025_ok: "list_all bandOk bands2025"
  by (simp add: bands2025_def bandOk_def)

lemma bands2026_ok: "list_all bandOk bands2026"
  by (simp add: bands2026_def bandOk_def)

text \<open>The lines already pushed stay in front of the lines the loop pushes.\<close>

lemma bandLoop_lines_append:
  "loopLines (bandLoop f bs (r, t, ls)) = ls @ loopLines (bandLoop f bs (r, t, []))"
proof (induction bs arbitrary: r t ls)
  case Nil
  show ?case by (simp add: loopLines_def)
next
  case (Cons b bs)
  show ?case
  proof (cases "r \<le> 0")
    case True
    then show ?thesis by (simp add: loopLines_def)
  next
    case False
    let ?a = "minLimit r (limit b)"
    let ?l = "AmountLine ?a (rate b * 100) (f (?a * rate b))"
    have "loopLines (bandLoop f (b # bs) (r, t, ls))
            = loopLines (bandLoop f bs (r - ?a, t + ?a * rate b, ls @ [?l]))"
      using False by (simp add: Let_def)
    also have "\<dots> = (ls @ [?l]) @ loopLines (bandLoop f bs (r - ?a, t + ?a * rate b, []))"
      by (rule Cons.IH)
    also have "\<dots> = ls @ loopLines (bandLoop f bs (r - ?a, t + ?a * rate b, [?l]))"
      using Cons.IH [of "r - ?a" "t + ?a * rate b" "[?l]"] by simp
    also have "\<dots> = ls @ loopLines (bandLoop f (b # bs) (r, t, []))"
      using False by (simp add: Let_def)
    finally show ?thesis .
  qed
qed

text \<open>The loop never lowers the tax it starts from.\<close>

lemma bandLoop_tax_ge:
  "list_all bandOk bs \<Longrightarrow> t \<le> loopTax (bandLoop f bs (r, t, ls))"
proof (induction bs arbitrary: r t ls)
  case Nil
  show ?case by (simp add: loopTax_def)
next
  case (Cons b bs)
  show ?case
  proof (cases "r \<le> 0")
    case True
    then show ?thesis by (simp add: loopTax_def)
  next
    case False
    let ?a = "minLimit r (limit b)"
    have ok: "bandOk b" "list_all bandOk bs" using Cons.prems by simp_all
    have "0 \<le> ?a" using False ok(1) by (simp add: minLimit_nonneg)
    moreover have "0 \<le> rate b" using ok(1) by (simp add: bandOk_def)
    ultimately have "t \<le> t + ?a * rate b" by simp
    also have "\<dots> \<le> loopTax (bandLoop f bs (r - ?a, t + ?a * rate b,
                            ls @ [AmountLine ?a (rate b * 100) (f (?a * rate b))]))"
      by (rule Cons.IH [OF ok(2)])
    finally show ?thesis using False by (simp add: Let_def)
  qed
qed

text \<open>A larger remainder and a larger starting tax give a larger tax.\<close>

lemma bandLoop_tax_mono:
  "list_all bandOk bs \<Longrightarrow> r1 \<le> r2 \<Longrightarrow> t1 \<le> t2 \<Longrightarrow>
     loopTax (bandLoop f bs (r1, t1, l1)) \<le> loopTax (bandLoop g bs (r2, t2, l2))"
proof (induction bs arbitrary: r1 r2 t1 t2 l1 l2)
  case Nil
  then show ?case by (simp add: loopTax_def)
next
  case (Cons b bs)
  have ok: "bandOk b" "list_all bandOk bs" using Cons.prems(1) by simp_all
  show ?case
  proof (cases "r1 \<le> 0")
    case True
    have "loopTax (bandLoop f (b # bs) (r1, t1, l1)) = t1"
      using True by (simp add: loopTax_def)
    also have "t1 \<le> t2" by (rule Cons.prems(3))
    also have "t2 \<le> loopTax (bandLoop g (b # bs) (r2, t2, l2))"
      by (rule bandLoop_tax_ge [OF Cons.prems(1)])
    finally show ?thesis .
  next
    case False
    then have pos2: "\<not> r2 \<le> 0" using Cons.prems(2) by simp
    let ?a1 = "minLimit r1 (limit b)"
    let ?a2 = "minLimit r2 (limit b)"
    have a: "?a1 \<le> ?a2" by (rule minLimit_mono [OF Cons.prems(2)])
    have rest: "r1 - ?a1 \<le> r2 - ?a2" by (rule minLimit_rest_mono [OF Cons.prems(2)])
    have "0 \<le> rate b" using ok(1) by (simp add: bandOk_def)
    then have "?a1 * rate b \<le> ?a2 * rate b" using a by (rule mult_right_mono [rotated])
    then have acc: "t1 + ?a1 * rate b \<le> t2 + ?a2 * rate b" using Cons.prems(3) by simp
    show ?thesis
      using False pos2 Cons.IH [OF ok(2) rest acc] by (simp add: Let_def)
  qed
qed

subsection \<open>The two loops in closed form\<close>

lemma loop2025_closed:
  "bandLoop (\<lambda>v. v) bands2025 (t, 0, []) =
     (if t \<le> 0 then (t, 0, [])
      else if t \<le> 300000 then (0, t * 0.07, [AmountLine t 7 (t * 0.07)])
      else if t \<le> 600000 then
        (0, 21000 + (t - 300000) * 0.11,
         [AmountLine 300000 7 21000, AmountLine (t - 300000) 11 ((t - 300000) * 0.11)])
      else if t \<le> 1100000 then
        (0, 54000 + (t - 600000) * 0.15,
         [AmountLine 300000 7 21000, AmountLine 300000 11 33000,
          AmountLine (t - 600000) 15 ((t - 600000) * 0.15)])
      else if t \<le> 1600000 then
        (0, 129000 + (t - 1100000) * 0.19,
         [AmountLine 300000 7 21000, AmountLine 300000 11 33000,
          AmountLine 500000 15 75000,
          AmountLine (t - 1100000) 19 ((t - 1100000) * 0.19)])
      else if t \<le> 3200000 then
        (0, 224000 + (t - 1600000) * 0.21,
         [AmountLine 300000 7 21000, AmountLine 300000 11 33000,
          AmountLine 500000 15 75000, AmountLine 500000 19 95000,
          AmountLine (t - 1600000) 21 ((t - 1600000) * 0.21)])
      else
        (0, 560000 + (t - 3200000) * 0.24,
         [AmountLine 300000 7 21000, AmountLine 300000 11 33000,
          AmountLine 500000 15 75000, AmountLine 500000 19 95000,
          AmountLine 1600000 21 336000,
          AmountLine (t - 3200000) 24 ((t - 3200000) * 0.24)]))"
  by (simp add: bands2025_def Let_def min_def)

lemma loop2026_closed:
  "bandLoop Math_round bands2026 (t, 0, ls) =
     (if t \<le> 0 then (t, 0, ls)
      else if t \<le> 2200000 then
        (0, t * 0.15, ls @ [AmountLine t 15 (Math_round (t * 0.15))])
      else if t \<le> 11200000 then
        (0, 330000 + (t - 2200000) * 0.18,
         ls @ [AmountLine 2200000 15 330000,
               AmountLine (t - 2200000) 18 (Math_round ((t - 2200000) * 0.18))])
      else if t \<le> 24200000 then
        (0, 1950000 + (t - 11200000) * 0.21,
         ls @ [AmountLine 2200000 15 330000, AmountLine 9000000 18 1620000,
               AmountLine (t - 11200000) 21 (Math_round ((t - 11200000) * 0.21))])
      else if t \<le> 49200000 then
        (0, 4680000 + (t - 24200000) * 0.23,
         ls @ [AmountLine 2200000 15 330000, AmountLine 9000000 18 1620000,
               AmountLine 13000000 21 2730000,
               AmountLine (t - 24200000) 23 (Math_round ((t - 24200000) * 0.23))])
      else
        (0, 10430000 + (t - 49200000) * 0.25,
         ls @ [AmountLine 2200000 15 330000, AmountLine 9000000 18 1620000,
               AmountLine 13000000 21 2730000, AmountLine 25000000 23 5750000,
               AmountLine (t - 49200000) 25 (Math_round ((t - 49200000) * 0.25))]))"
  by (simp add: bands2026_def Let_def min_def Math_round_numeral)

subsection \<open>calculateTax, field by field\<close>

lemma calculateTax_2025:
  "calculateTax x Y2025 =
     \<lparr>tax = loopTax (bandLoop (\<lambda>v. v) bands2025
              (max (x - (max 200000 (x * 0.01) + x * 0.2)) 0, 0, [])),
      relief = max 200000 (x * 0.01) + x * 0.2,
      taxableIncome = max (x - (max 200000 (x * 0.01) + x * 0.2)) 0,
      breakdown = loopLines (bandLoop (\<lambda>v. v) bands2025
              (max (x - (max 200000 (x * 0.01) + x * 0.2)) 0, 0, []))\<rparr>"
  by (simp add: calculateTax_def loopTax_def loopLines_def Let_def split: prod.splits)

lemma calculateTax_2026_below:
  "x \<le> 800000 \<Longrightarrow>
     calculateTax x Y2026 =
       \<lparr>tax = 0, relief = 0, taxableIncome = 0, breakdown = [TaxFreeLine x]\<rparr>"
  by (simp add: calculateTax_def)

lemma calculateTax_2026_above:
  "800000 < x \<Longrightarrow>
     calculateTax x Y2026 =
       \<lparr>tax = loopTax (bandLoop Math_round bands2026 (x - 800000, 0, [ThresholdLine 800000])),
        relief = 0,
        taxableIncome = x - 800000,
        breakdown =
          loopLines (bandLoop Math_round bands2026 (x - 800000, 0, [ThresholdLine 800000]))\<rparr>"
  by (simp add: calculateTax_def loopTax_def loopLines_def Let_def max_def split: prod.splits)

lemma calculateTax_mono:
  assumes xy: "x \<le> y"
  shows "tax (calculateTax x yr) \<le> tax (calculateTax y yr)"
proof (cases yr)
  case Y2025
  have "max (x - (max 200000 (x * 0.01) + x * 0.2)) 0
          \<le> max (y - (max 200000 (y * 0.01) + y * 0.2)) 0"
    using xy by (simp add: max_def)
  then show ?thesis
    unfolding Y2025 calculateTax_2025
    by (simp add: bandLoop_tax_mono bands2025_ok)
next
  case Y2026
  show ?thesis
  proof (cases "y \<le> 800000")
    case True
    then show ?thesis
      using xy unfolding Y2026 by (simp add: calculateTax_2026_below)
  next
    case y: False
    show ?thesis
    proof (cases "x \<le> 800000")
      case True
      then show ?thesis
        using y unfolding Y2026
        by (simp add: calculateTax_2026_below calculateTax_2026_above
              bandLoop_tax_ge bands2026_ok)
    next
      case False
      then show ?thesis
        using y xy unfolding Y2026
        by (simp add: calculateTax_2026_above bandLoop_tax_mono bands2026_ok)
    qed
  qed
qed

lemma resultsStep_2026:
  "resultsStep userType method Y2026 x r
     = calculateTax (incomeAfterRentRelief Y2026 x r) Y2026"
  by (simp add: resultsStep_def)

lemma calculateTax_2026_taxableIncome:
  "taxableIncome (calculateTax x Y2026) = max (x - 800000) 0"
  by (cases "x \<le> 800000") (simp_all add: calculateTax_2026_below calculateTax_2026_above)

lemma reform_above_not_below:
  assumes x: "800000 < x"
  shows "\<not> isBelowThreshold (calculateTax x Y2026)"
proof -
  have "breakdown (calculateTax x Y2026)
          = [ThresholdLine 800000]
              @ loopLines (bandLoop Math_round bands2026 (x - 800000, 0, []))"
    using x
    by (simp add: calculateTax_2026_above
          bandLoop_lines_append [where ls = "[ThresholdLine 800000]"])
  then show ?thesis by (simp add: isBelowThreshold_def)
qed

lemma isBelowThreshold_2026:
  "isBelowThreshold (calculateTax x Y2026) \<longleftrightarrow> x \<le> 800000"
proof (cases "x \<le> 800000")
  case True
  then show ?thesis by (simp add: calculateTax_2026_below isBelowThreshold_def)
next
  case False
  then show ?thesis using reform_above_not_below [of x] by simp
qed

section \<open>The claims\<close>

subsection \<open>C1: relief and taxable income of the 2025 regime\<close>

text \<open>
  C1. Under the 2025 regime, for every annual income, \<open>calculateTax\<close> returns
  \<open>relief = max(200000, income * 0.01) + income * 0.2\<close> and
  \<open>taxableIncome = max(income - relief, 0)\<close>. The results step returns the same two
  values for every income that is not negative, whenever the flat crypto rate does not
  apply (it floors a negative income at 0 before the call).
\<close>

theorem legacy_relief_and_taxable_income:
  "relief (calculateTax income Y2025) = max 200000 (income * 0.01) + income * 0.2 \<and>
   taxableIncome (calculateTax income Y2025)
     = max (income - (max 200000 (income * 0.01) + income * 0.2)) 0 \<and>
   (\<not> isCryptoCGT userType method \<and> 0 \<le> income \<longrightarrow>
      relief (resultsStep userType method Y2025 income rent)
        = max 200000 (income * 0.01) + income * 0.2 \<and>
      taxableIncome (resultsStep userType method Y2025 income rent)
        = max (income - (max 200000 (income * 0.01) + income * 0.2)) 0)"
  by (simp add: calculateTax_2025 resultsStep_def incomeAfterRentRelief_def rentRelief_def)

text \<open>C1 at a salary of 1,000,000: the relief is 400,000 and 600,000 are taxable.\<close>

theorem legacy_relief_and_taxable_income_witness:
  "\<not> isCryptoCGT (Some Salary) Pit \<and> (0::rat) \<le> 1000000 \<and>
   relief (resultsStep (Some Salary) Pit Y2025 1000000 0) = 400000 \<and>
   taxableIncome (resultsStep (Some Salary) Pit Y2025 1000000 0) = 600000"
  using legacy_relief_and_taxable_income [of 1000000 "Some Salary" Pit 0]
  by (simp add: isCryptoCGT_def)

subsection \<open>C2: the bands of the 2025 regime\<close>

text \<open>
  C2. The 2025 table has the widths 300,000, 300,000, 500,000, 500,000, 1,600,000 and
  no limit, at the rates 7%, 11%, 15%, 19%, 21% and 24%. For a taxable income \<open>t\<close> the
  loop consumes the bands in this order: every band below the one \<open>t\<close> ends in is consumed
  whole, the band \<open>t\<close> ends in takes what remains, each consumed band adds its amount times
  its rate to the tax and one line to the breakdown, and no band after it adds a line. So
  the tax is the sum of the taxes of the lines, the amounts of the lines add up to \<open>t\<close>,
  every line has a positive amount, and there are as many lines as there are bands whose
  lower end lies below \<open>t\<close>.
\<close>

theorem legacy_band_consumption:
  "map limit bands2025
     = [Amount 300000, Amount 300000, Amount 500000, Amount 500000, Amount 1600000,
        Infinity] \<and>
   map rate bands2025 = [7 / 100, 11 / 100, 15 / 100, 19 / 100, 21 / 100, 24 / 100] \<and>
   (taxableIncome (calculateTax income Y2025) = t \<longrightarrow>
      (tax (calculateTax income Y2025), breakdown (calculateTax income Y2025)) =
        (if t \<le> 0 then (0, [])
         else if t \<le> 300000 then (t * 0.07, [AmountLine t 7 (t * 0.07)])
         else if t \<le> 600000 then
           (21000 + (t - 300000) * 0.11,
            [AmountLine 300000 7 21000,
             AmountLine (t - 300000) 11 ((t - 300000) * 0.11)])
         else if t \<le> 1100000 then
           (54000 + (t - 600000) * 0.15,
            [AmountLine 300000 7 21000, AmountLine 300000 11 33000,
             AmountLine (t - 600000) 15 ((t - 600000) * 0.15)])
         else if t \<le> 1600000 then
           (129000 + (t - 1100000) * 0.19,
            [AmountLine 300000 7 21000, AmountLine 300000 11 33000,
             AmountLine 500000 15 75000,
             AmountLine (t - 1100000) 19 ((t - 1100000) * 0.19)])
         else if t \<le> 3200000 then
           (224000 + (t - 1600000) * 0.21,
            [AmountLine 300000 7 21000, AmountLine 300000 11 33000,
             AmountLine 500000 15 75000, AmountLine 500000 19 95000,
             AmountLine (t - 1600000) 21 ((t - 1600000) * 0.21)])
         else
           (560000 + (t - 3200000) * 0.24,
            [AmountLine 300000 7 21000, AmountLine 300000 11 33000,
             AmountLine 500000 15 75000, AmountLine 500000 19 95000,
             AmountLine 1600000 21 336000,
             AmountLine (t - 3200000) 24 ((t - 3200000) * 0.24)])) \<and>
      tax (calculateTax income Y2025)
        = sum_list (map lineValue (breakdown (calculateTax income Y2025))) \<and>
      sum_list (map lineAmount (breakdown (calculateTax income Y2025))) = t \<and>
      list_all (\<lambda>l. 0 < lineAmount l) (breakdown (calculateTax income Y2025)) \<and>
      length (breakdown (calculateTax income Y2025))
        = length (filter (\<lambda>lo. lo < t) [0, 300000, 600000, 1100000, 1600000, 3200000]))"
proof -
  let ?t = "taxableIncome (calculateTax income Y2025)"
  have t0: "0 \<le> ?t"
    by (simp add: calculateTax_2025)
  have r: "calculateTax income Y2025 =
     \<lparr>tax = loopTax (bandLoop (\<lambda>v. v) bands2025 (?t, 0, [])),
      relief = max 200000 (income * 0.01) + income * 0.2,
      taxableIncome = ?t,
      breakdown = loopLines (bandLoop (\<lambda>v. v) bands2025 (?t, 0, []))\<rparr>"
    by (simp add: calculateTax_2025)
  show ?thesis
    apply (intro conjI impI)
    apply (simp add: bands2025_def)
    apply (simp add: bands2025_def)
    subgoal using t0 by (subst r, subst (2) r) (simp add: loop2025_closed loopTax_def loopLines_def)
    subgoal using t0 by (subst r, subst (2) r) (simp add: loop2025_closed loopTax_def loopLines_def)
    subgoal using t0 by (subst r) (auto simp add: loop2025_closed loopTax_def loopLines_def)
    subgoal using t0 by (subst r) (simp add: loop2025_closed loopTax_def loopLines_def)
    subgoal using t0 by (subst r) (simp add: loop2025_closed loopTax_def loopLines_def)
    done
qed

text \<open>
  C2 at an income of 5,000,000: 3,800,000 are taxable, all six bands are consumed and the
  tax is 704,000.
\<close>

theorem legacy_band_consumption_witness:
  "taxableIncome (calculateTax 5000000 Y2025) = 3800000 \<and>
   tax (calculateTax 5000000 Y2025) = 704000 \<and>
   breakdown (calculateTax 5000000 Y2025)
     = [AmountLine 300000 7 21000, AmountLine 300000 11 33000,
        AmountLine 500000 15 75000, AmountLine 500000 19 95000,
        AmountLine 1600000 21 336000, AmountLine 600000 24 144000]"
proof -
  have h: "taxableIncome (calculateTax 5000000 Y2025) = 3800000"
    by (simp add: calculateTax_2025)
  show ?thesis
    using h legacy_band_consumption [of 5000000 3800000] by simp
qed

subsection \<open>C3: threshold and bands of the 2026 regime\<close>

text \<open>
  C3. Under the 2026 regime the taxable income is the income net of the threshold of
  800,000, floored at 0 (in the results step, the income after rent relief net of the
  threshold). The table has the widths 2,200,000, 9,000,000, 13,000,000, 25,000,000 and
  no limit, at the rates 15%, 18%, 21%, 23% and 25%, so the tax changes its rate at the
  incomes 3,000,000, 12,000,000, 25,000,000 and 50,000,000. An income of 800,001 with no
  rent has a taxable income of 1 and a tax of 0.15.
\<close>

theorem reform_threshold_and_bands:
  "map limit bands2026
     = [Amount 2200000, Amount 9000000, Amount 13000000, Amount 25000000, Infinity] \<and>
   map rate bands2026 = [15 / 100, 18 / 100, 21 / 100, 23 / 100, 25 / 100] \<and>
   taxableIncome (calculateTax income Y2026) = max (income - 800000) 0 \<and>
   taxableIncome (resultsStep userType method Y2026 income rent)
     = max (incomeAfterRentRelief Y2026 income rent - 800000) 0 \<and>
   tax (calculateTax income Y2026) =
     (if income \<le> 800000 then 0
      else if income \<le> 3000000 then (income - 800000) * 0.15
      else if income \<le> 12000000 then 330000 + (income - 3000000) * 0.18
      else if income \<le> 25000000 then 1950000 + (income - 12000000) * 0.21
      else if income \<le> 50000000 then 4680000 + (income - 25000000) * 0.23
      else 10430000 + (income - 50000000) * 0.25) \<and>
   resultsStep userType method Y2026 800001 0
     = \<lparr>tax = 0.15, relief = 0, taxableIncome = 1,
        breakdown = [ThresholdLine 800000, AmountLine 1 15 0]\<rparr>"
proof -
  have tx: "tax (calculateTax income Y2026) =
     (if income \<le> 800000 then 0
      else if income \<le> 3000000 then (income - 800000) * 0.15
      else if income \<le> 12000000 then 330000 + (income - 3000000) * 0.18
      else if income \<le> 25000000 then 1950000 + (income - 12000000) * 0.21
      else if income \<le> 50000000 then 4680000 + (income - 25000000) * 0.23
      else 10430000 + (income - 50000000) * 0.25)"
    by (cases "income \<le> 800000")
      (simp_all add: calculateTax_2026_below calculateTax_2026_above loop2026_closed
         loopTax_def)
  have net: "incomeAfterRentRelief Y2026 800001 0 = 800001"
    by (simp add: incomeAfterRentRelief_def rentRelief_def)
  have ex: "calculateTax 800001 Y2026
     = \<lparr>tax = 0.15, relief = 0, taxableIncome = 1,
        breakdown = [ThresholdLine 800000, AmountLine 1 15 0]\<rparr>"
    by (simp add: calculateTax_2026_above loop2026_closed loopTax_def loopLines_def
          Math_round_small)
  show ?thesis
    apply (intro conjI)
    apply (simp add: bands2026_def)
    apply (simp add: bands2026_def)
    apply (rule calculateTax_2026_taxableIncome)
    apply (simp add: resultsStep_2026 calculateTax_2026_taxableIncome)
    apply (rule tx)
    apply (simp add: resultsStep_2026 net ex)
    done
qed

subsection \<open>C4: the early return below the threshold\<close>

text \<open>
  C4 as stated has the threshold checked against the raw income. It is not: with an income
  of 1,000,000 and a rent of 2,500,000 the raw income is above 800,000, yet the results
  step returns the below-threshold result, for the 500,000 left after rent relief.
\<close>

theorem reform_threshold_on_raw_income_counterexample:
  "\<not> (1000000 :: rat) \<le> 800000 \<and>
   resultsStep (Some Salary) Pit Y2026 1000000 2500000
     = \<lparr>tax = 0, relief = 0, taxableIncome = 0, breakdown = [TaxFreeLine 500000]\<rparr> \<and>
   isBelowThreshold (resultsStep (Some Salary) Pit Y2026 1000000 2500000)"
  by (simp add: resultsStep_def incomeAfterRentRelief_def rentRelief_def
        calculateTax_2026_below isBelowThreshold_def isCryptoCGT_def)

text \<open>
  C4, amended. Under the 2026 regime the threshold is checked against the income after
  rent relief, the argument \<open>calculateTax\<close> is called with. When that income is at most
  800,000 the result is a tax of 0, a taxable income of 0 and the single tax-free line
  for that income, and the loop over the bands is not run; the below-threshold result is
  returned in no other case. Every raw income of at most 800,000 with a rent that is not
  negative is such a case.
\<close>

theorem reform_threshold_short_circuit:
  "(incomeAfterRentRelief Y2026 income rent \<le> 800000 \<longrightarrow>
      resultsStep userType method Y2026 income rent
        = \<lparr>tax = 0, relief = 0, taxableIncome = 0,
           breakdown = [TaxFreeLine (incomeAfterRentRelief Y2026 income rent)]\<rparr>) \<and>
   (isBelowThreshold (resultsStep userType method Y2026 income rent)
      \<longleftrightarrow> incomeAfterRentRelief Y2026 income rent \<le> 800000) \<and>
   (income \<le> 800000 \<and> 0 \<le> rent \<longrightarrow>
      isBelowThreshold (resultsStep userType method Y2026 income rent))"
proof -
  have net: "incomeAfterRentRelief Y2026 income rent \<le> 800000"
    if "income \<le> 800000" "0 \<le> rent"
    using that by (simp add: incomeAfterRentRelief_def rentRelief_def min_def)
  show ?thesis
    unfolding resultsStep_2026 isBelowThreshold_2026
    using net by (simp add: calculateTax_2026_below)
qed

text \<open>
  C4, amended, at an income of 700,000 with a rent of 100,000: 680,000 remain after rent
  relief and the result is the below-threshold one.
\<close>

theorem reform_threshold_short_circuit_witness:
  "incomeAfterRentRelief Y2026 700000 100000 \<le> 800000 \<and>
   (700000 :: rat) \<le> 800000 \<and> (0 :: rat) \<le> 100000 \<and>
   resultsStep (Some Salary) Pit Y2026 700000 100000
     = \<lparr>tax = 0, relief = 0, taxableIncome = 0, breakdown = [TaxFreeLine 680000]\<rparr> \<and>
   isBelowThreshold (resultsStep (Some Salary) Pit Y2026 700000 100000)"
proof -
  have h: "incomeAfterRentRelief Y2026 700000 100000 = 680000"
    by (simp add: incomeAfterRentRelief_def rentRelief_def)
  show ?thesis
    using reform_threshold_short_circuit [of 700000 100000 "Some Salary" Pit]
    by (auto simp add: h)
qed

subsection \<open>C5: the flat crypto rate of the 2025 regime\<close>

text \<open>
  C5. For a crypto user who chose the capital gains method under the 2025 regime, the
  result for every income is a tax of \<open>income * 0.1\<close>, a relief of 0, the income itself as
  taxable income and the single line of the flat computation; no band is applied and the
  rent plays no part. An income of 5,000,000 gives a tax of 500,000.
\<close>

theorem legacy_crypto_flat_rate:
  "resultsStep (Some Crypto) Cgt Y2025 income rent
     = \<lparr>tax = income * 0.1, relief = 0, taxableIncome = income,
        breakdown = [AmountLine income 10 (income * 0.1)]\<rparr> \<and>
   tax (resultsStep (Some Crypto) Cgt Y2025 5000000 rent) = 500000"
  by (simp add: resultsStep_def isCryptoCGT_def)

subsection \<open>C6: capital gains under the 2026 regime\<close>

text \<open>
  C6. Under the 2026 regime, for every user type, income and rent, the capital gains
  method gives the same result as the personal income method.
\<close>

theorem reform_capital_gains_as_personal_income:
  "resultsStep userType Cgt Y2026 income rent = resultsStep userType Pit Y2026 income rent"
  by (simp add: resultsStep_def)

subsection \<open>C7: the cap of the rent relief\<close>

text \<open>
  C7. Under the 2026 regime the rent relief is \<open>min(rent * 0.2, 500000)\<close>, never above
  500,000, and it is taken off the income, floored at 0, before \<open>calculateTax\<close> checks the
  threshold. A rent of 3,000,000 and a rent of 10,000,000 give the same taxable income
  for every income.
\<close>

theorem reform_rent_relief_cap:
  "rentRelief Y2026 rent = min (rent * 0.2) 500000 \<and>
   rentRelief Y2026 rent \<le> 500000 \<and>
   resultsStep userType method Y2026 income rent
     = calculateTax (max (income - min (rent * 0.2) 500000) 0) Y2026 \<and>
   taxableIncome (resultsStep userType method Y2026 income 3000000)
     = taxableIncome (resultsStep userType method Y2026 income 10000000)"
  by (simp add: resultsStep_def incomeAfterRentRelief_def rentRelief_def)

subsection \<open>C8: the tax grows with the income\<close>

text \<open>
  C8. For a fixed user type, crypto method, tax year and rent, a larger income never has a
  smaller tax.
\<close>

theorem tax_monotone_in_income:
  "income1 < income2 \<Longrightarrow>
     tax (resultsStep userType method taxYear income1 rent)
       \<le> tax (resultsStep userType method taxYear income2 rent)"
  by (simp add: resultsStep_def incomeAfterRentRelief_def calculateTax_mono)

text \<open>C8 at the incomes 1,000,000 and 5,000,000 of a salary earner in 2025.\<close>

theorem tax_monotone_in_income_witness:
  "(1000000 :: rat) < 5000000 \<and>
   tax (resultsStep (Some Salary) Pit Y2025 1000000 0)
     \<le> tax (resultsStep (Some Salary) Pit Y2025 5000000 0)"
  using tax_monotone_in_income [of 1000000 5000000 "Some Salary" Pit Y2025 0]
  by simp

subsection \<open>C9: negative inputs\<close>

text \<open>
  C9 as stated has a negative income or rent rejected. The source has no check and no
  \<^verbatim>\<open>throw\<close>: every call returns a result. An income of -5 in 2025 returns a tax of 0,
  from the results step (which floors the income at 0) and from \<open>calculateTax\<close> itself;
  a rent of -10 in 2026 returns a result in which 2 were added to the income.
\<close>

theorem negative_input_rejected_counterexample:
  "(- 5 :: rat) < 0 \<and>
   resultsStep (Some Salary) Pit Y2025 (- 5) 0
     = \<lparr>tax = 0, relief = 200000, taxableIncome = 0, breakdown = []\<rparr> \<and>
   calculateTax (- 5) Y2025
     = \<lparr>tax = 0, relief = 199999, taxableIncome = 0, breakdown = []\<rparr> \<and>
   (- 10 :: rat) < 0 \<and>
   resultsStep (Some Salary) Pit Y2026 800000 (- 10)
     = \<lparr>tax = 0.3, relief = 0, taxableIncome = 2,
        breakdown = [ThresholdLine 800000, AmountLine 2 15 0]\<rparr>"
  by (simp add: resultsStep_def incomeAfterRentRelief_def rentRelief_def isCryptoCGT_def
        calculateTax_2025 calculateTax_2026_above loop2025_closed loop2026_closed
        loopTax_def loopLines_def Math_round_small)

text \<open>
  C9, amended. No input is rejected. A negative income outside the flat crypto flow is
  floored at 0 by the results step: in 2025 the result is a tax of 0, a relief of 200,000,
  a taxable income of 0 and an empty breakdown; in 2026, with a rent that is not negative,
  it is the below-threshold result for an income of 0. A negative rent is not rejected
  either: in 2026 the rent relief is then \<open>rent * 0.2\<close>, and in 2025 the rent is ignored.
\<close>

theorem negative_input_accepted:
  "(income < 0 \<and> \<not> isCryptoCGT userType method \<longrightarrow>
      resultsStep userType method Y2025 income rent
        = \<lparr>tax = 0, relief = 200000, taxableIncome = 0, breakdown = []\<rparr>) \<and>
   (income < 0 \<and> 0 \<le> rent \<longrightarrow>
      resultsStep userType method Y2026 income rent
        = \<lparr>tax = 0, relief = 0, taxableIncome = 0, breakdown = [TaxFreeLine 0]\<rparr>) \<and>
   (rent < 0 \<longrightarrow>
      rentRelief Y2026 rent = rent * 0.2 \<and>
      resultsStep userType method Y2026 income rent
        = calculateTax (max (income - rent * 0.2) 0) Y2026 \<and>
      resultsStep userType method Y2025 income rent
        = resultsStep userType method Y2025 income 0)"
  by (simp add: resultsStep_def incomeAfterRentRelief_def rentRelief_def
        calculateTax_2025 calculateTax_2026_below loop2025_closed
        loopTax_def loopLines_def min_def max_def)

text \<open>
  C9, amended, at an income of -5 with a rent of 0, and at an income of 800,000 with a
  rent of -10.
\<close>

theorem negative_input_accepted_witness:
  "(- 5 :: rat) < 0 \<and> \<not> isCryptoCGT (Some Salary) Pit \<and> (0 :: rat) \<le> 0 \<and>
   resultsStep (Some Salary) Pit Y2025 (- 5) 0
     = \<lparr>tax = 0, relief = 200000, taxableIncome = 0, breakdown = []\<rparr> \<and>
   resultsStep (Some Salary) Pit Y2026 (- 5) 0
     = \<lparr>tax = 0, relief = 0, taxableIncome = 0, breakdown = [TaxFreeLine 0]\<rparr> \<and>
   (- 10 :: rat) < 0 \<and>
   rentRelief Y2026 (- 10) = - 2 \<and>
   resultsStep (Some Salary) Pit Y2026 800000 (- 10)
     = calculateTax (max (800000 - (- 10) * 0.2) 0) Y2026"
  using negative_input_accepted [of "- 5" "Some Salary" Pit 0]
    negative_input_accepted [of 800000 "Some Salary" Pit "- 10"]
  by (simp add: isCryptoCGT_def)

subsection \<open>C10: the threshold line of the 2026 breakdown\<close>

text \<open>
  C10. Under the 2026 regime, for every income above 800,000 that \<open>calculateTax\<close> is
  called with, the breakdown is the threshold line (800,000 at 0%) followed by the lines
  the loop pushes, one for each consumed band, so it has one line more than there are
  consumed bands; the consumed bands are those whose lower end, as an income, lies below
  the income.
\<close>

theorem reform_threshold_line_first:
  "800000 < income \<Longrightarrow>
     breakdown (calculateTax income Y2026)
       = ThresholdLine 800000
           # loopLines (bandLoop Math_round bands2026 (income - 800000, 0, [])) \<and>
     list_all isAmountLine (tl (breakdown (calculateTax income Y2026))) \<and>
     length (breakdown (calculateTax income Y2026))
       = 1 + length (filter (\<lambda>lo. lo < income)
                       [800000, 3000000, 12000000, 25000000, 50000000])"
  by (simp add: calculateTax_2026_above loop2026_closed loopLines_def)

text \<open>
  C10 at an income of 60,000,000: all five bands are consumed and the breakdown has six
  lines, the threshold line first.
\<close>

theorem reform_threshold_line_first_witness:
  "(800000 :: rat) < 60000000 \<and>
   hd (breakdown (calculateTax 60000000 Y2026)) = ThresholdLine 800000 \<and>
   length (breakdown (calculateTax 60000000 Y2026)) = 6"
proof -
  have h: "(800000 :: rat) < 60000000" by simp
  note t = reform_threshold_line_first [OF h]
  have "hd (breakdown (calculateTax 60000000 Y2026)) = ThresholdLine 800000"
    using t [THEN conjunct1] by simp
  moreover have "length (breakdown (calculateTax 60000000 Y2026)) = 6"
    using t [THEN conjunct2, THEN conjunct2] by simp
  ultimately show ?thesis by simp
qed

end
